theory Spec2Isabelle
  imports Main
begin

section \<open>Values, errors and enumerations of package mongo\<close>

text \<open>
  The development embeds \<^verbatim>\<open>src/mongo/mongo.go\<close>. Go values that the mapper
  touches through reflection are represented by \<open>val\<close>; an \<^verbatim>\<open>interface{}\<close> argument
  is a \<open>val option\<close>, \<open>None\<close> being the nil interface. A pointer carries the name of the
  struct type it points to and an address (\<open>None\<close> is the nil pointer). A
  \<^verbatim>\<open>bson.ObjectId\<close> is a Go string: the zero identifier is the empty string and
  \<^verbatim>\<open>Valid()\<close> holds for strings of twelve bytes.
\<close>

type_synonym addr = nat
type_synonym tyname = string

datatype val =
    VObjectId string
  | VString string
  | VInt int
  | VBool bool
  | VPtr tyname "addr option"
  | VSlice "val list"

type_synonym document = "val option"

datatype error =
    ErrDocumentNotRegistered
  | ErrIDFieldNotFound
  | ErrMappedFieldNotFound
  | ErrNotAstruct
  | ErrNotAPointer
  | ErrNotAnArray
  | ErrNotImpletemented
  | ErrFieldNotFound
  | ErrInvalidAnnotation
  | ErrNotFound
  | ErrDriver string
  | ErrSyntax string
  | Panic

text \<open>
  \<open>ErrNotFound\<close> is the driver's sentinel \<^verbatim>\<open>mgo.ErrNotFound\<close>, \<open>ErrDriver\<close> any
  other driver error, \<open>ErrSyntax\<close> an error of the annotation tokenizer and \<open>Panic\<close>
  a run-time panic of the Go program (nil dereference, reflection on a missing field,
  an unhashable map key).
\<close>

datatype relationMap = noRelationMap | mappedBy | inversedBy
datatype relationType = noRelationType | referenceMany | referenceOne
datatype load = lazy | eager
datatype cascade = noCascade | cascadeAll | cascadePersist | cascadeRemove
datatype task = del | insertTask | updateTask

record relation =
  r_load :: load
  r_relation :: relationType
  r_targetDocument :: string
  r_cascade :: cascade
  r_mapped :: relationMap
  r_mappedField :: string
  r_idStorageField :: string

definition zeroRelation :: relation where
  "zeroRelation = \<lparr> r_load = lazy, r_relation = noRelationType, r_targetDocument = [],
     r_cascade = noCascade, r_mapped = noRelationMap, r_mappedField = [],
     r_idStorageField = [] \<rparr>"

record field =
  f_composite :: bool
  f_index :: bool
  f_unique :: bool
  f_key :: string
  f_name :: string
  f_omitempty :: bool
  f_relation :: relation
  f_ignore :: bool

definition hasRelation :: "field \<Rightarrow> bool" where
  "hasRelation f = (f_relation f \<noteq> zeroRelation)"

record metadata =
  m_targetDocument :: string
  m_structType :: tyname
  m_idField :: string
  m_idKey :: string
  m_fields :: "field list"

definition zeroMetadata :: metadata where
  "zeroMetadata = \<lparr> m_targetDocument = [], m_structType = [], m_idField = [],
     m_idKey = [], m_fields = [] \<rparr>"

section \<open>Strings\<close>

text \<open>
  A Go string is a sequence of bytes. \<^verbatim>\<open>strings.ToLower\<close>, for which \<^verbatim>\<open>toLower\<close>
  (line 1347) is a shortcut, maps the letters A to Z when every byte of its argument is
  below \<^verbatim>\<open>utf8.RuneSelf\<close>; on any other argument it answers
  \<^verbatim>\<open>strings.Map(unicode.ToLower, s)\<close>, which the standard library computes from the
  case tables of Unicode. That second path is the parameter \<open>lowerRunes\<close> of \<open>toLower\<close>
  and of every function that lowers a string: what is proved below holds whatever the
  tables are.
\<close>

definition lowerChar :: "char \<Rightarrow> char" where
  "lowerChar c =
     (case map_of (zip ''ABCDEFGHIJKLMNOPQRSTUVWXYZ'' ''abcdefghijklmnopqrstuvwxyz'') c of
        None \<Rightarrow> c
      | Some l \<Rightarrow> l)"

definition isASCII :: "string \<Rightarrow> bool" where
  "isASCII s = (\<forall>c \<in> set s. (of_char c :: nat) < 128)"

definition toLower :: "(string \<Rightarrow> string) \<Rightarrow> string \<Rightarrow> string" where
  "toLower lowerRunes s = (if isASCII s then map lowerChar s else lowerRunes s)"

text \<open>
  \<^verbatim>\<open>strings.TrimSpace\<close> removes the leading and then the trailing runes that
  \<^verbatim>\<open>unicode.IsSpace\<close> accepts: U+0009 to U+000D, U+0020, U+0085, U+00A0, U+1680,
  U+2000 to U+200A, U+2028, U+2029, U+202F, U+205F and U+3000. \<open>whiteSpace\<close> lists
  their UTF-8 encodings. The decoder yields one of these runes at the front (or at the
  back) of a string exactly when the string starts (or ends) with its encoding, and a
  malformed byte decodes to \<^verbatim>\<open>utf8.RuneError\<close>, which is no space. Each step removes
  at least one byte, so the length of the string is fuel enough.
\<close>

definition whiteSpace :: "string list" where
  "whiteSpace =
     [[CHR 0x09], [CHR 0x0A], [CHR 0x0B], [CHR 0x0C], [CHR 0x0D], [CHR 0x20],
      [CHR 0xC2, CHR 0x85], [CHR 0xC2, CHR 0xA0], [CHR 0xE1, CHR 0x9A, CHR 0x80]] @
     map (\<lambda>b. [CHR 0xE2, CHR 0x80, b])
       [CHR 0x80, CHR 0x81, CHR 0x82, CHR 0x83, CHR 0x84, CHR 0x85, CHR 0x86, CHR 0x87,
        CHR 0x88, CHR 0x89, CHR 0x8A, CHR 0xA8, CHR 0xA9, CHR 0xAF] @
     [[CHR 0xE2, CHR 0x81, CHR 0x9F], [CHR 0xE3, CHR 0x80, CHR 0x80]]"

definition leadingSpace :: "string \<Rightarrow> nat" where
  "leadingSpace s =
     (case find (\<lambda>w. take (length w) s = w) whiteSpace of
        None \<Rightarrow> 0
      | Some w \<Rightarrow> length w)"

definition trailingSpace :: "string \<Rightarrow> nat" where
  "trailingSpace s =
     (case find (\<lambda>w. drop (length s - length w) s = w) whiteSpace of
        None \<Rightarrow> 0
      | Some w \<Rightarrow> length w)"

fun trimLeft :: "nat \<Rightarrow> string \<Rightarrow> string" where
  "trimLeft 0 s = s"
| "trimLeft (Suc n) s =
     (if leadingSpace s = 0 then s else trimLeft n (drop (leadingSpace s) s))"

fun trimRight :: "nat \<Rightarrow> string \<Rightarrow> string" where
  "trimRight 0 s = s"
| "trimRight (Suc n) s =
     (if trailingSpace s = 0 then s
      else trimRight n (take (length s - trailingSpace s) s))"

definition TrimSpace :: "string \<Rightarrow> string" where
  "TrimSpace s = (let t = trimLeft (length s) s in trimRight (length t) t)"

text \<open>\<^verbatim>\<open>strings.Split\<close> with a separator of one byte.\<close>

fun Split :: "string \<Rightarrow> char \<Rightarrow> string list" where
  "Split [] sep = [[]]"
| "Split (c # cs) sep =
     (if c = sep then [] # Split cs sep
      else (case Split cs sep of
              [] \<Rightarrow> [[c]]
            | p # ps \<Rightarrow> (c # p) # ps))"

section \<open>Metadata compilation\<close>

text \<open>
  A struct type is a name and its declared fields; of a field the compiler reads the
  name and the values of the \<^verbatim>\<open>bson\<close> and \<^verbatim>\<open>odm\<close> struct tags. The tokenizer of
  package \<^verbatim>\<open>tag\<close> is a parameter \<open>Parse\<close> of the compilation.
\<close>

record sfield =
  sf_name :: string
  sf_bson :: string
  sf_odm :: string

datatype gotype = Struct tyname "sfield list" | PtrTo gotype | OtherType

record tag_Parameter =
  Key :: string
  Value :: string

record tag_Definition =
  Name :: string
  Parameters :: "tag_Parameter list"

type_synonym parser = "string \<Rightarrow> error + tag_Definition list"

text \<open>One iteration of the parameter loop of a relation definition (lines 1293-1324).\<close>

definition relationParameter ::
  "(string \<Rightarrow> string) \<Rightarrow> relation \<Rightarrow> tag_Parameter \<Rightarrow> error + relation" where
  "relationParameter lowerRunes R p =
     (let k = toLower lowerRunes (Key p) in
      if k = ''mappedby'' then Inr (R\<lparr> r_mapped := mappedBy, r_mappedField := Value p \<rparr>)
      else if k = ''inversedby'' then
        Inr (R\<lparr> r_mapped := inversedBy, r_mappedField := Value p \<rparr>)
      else if k = ''targetdocument'' then Inr (R\<lparr> r_targetDocument := Value p \<rparr>)
      else if k = ''cascade'' then
        (let v = toLower lowerRunes (Value p) in
         if v = ''persist'' then Inr (R\<lparr> r_cascade := cascadePersist \<rparr>)
         else if v = ''remove'' then Inr (R\<lparr> r_cascade := cascadeRemove \<rparr>)
         else if v = ''all'' then Inr (R\<lparr> r_cascade := cascadeAll \<rparr>)
         else Inr R)
      else if k = ''storeid'' then Inr (R\<lparr> r_idStorageField := Value p \<rparr>)
      else if k = ''load'' then
        (if toLower lowerRunes (Value p) = ''eager'' then Inr (R\<lparr> r_load := eager \<rparr>)
         else Inr R)
      else Inl ErrInvalidAnnotation)"

fun relationParameters ::
  "(string \<Rightarrow> string) \<Rightarrow> relation \<Rightarrow> tag_Parameter list \<Rightarrow> error + relation" where
  "relationParameters lowerRunes R [] = Inr R"
| "relationParameters lowerRunes R (p # ps) =
     (case relationParameter lowerRunes R p of
        Inl e \<Rightarrow> Inl e
      | Inr R' \<Rightarrow> relationParameters lowerRunes R' ps)"

text \<open>
  One iteration of the definition loop (lines 1266-1328). The state is the metadata
  under construction and the field's \<open>MetaField\<close>; \<open>fname\<close> is \<^verbatim>\<open>Field.Name\<close>.
  \<open>MetaField.relation\<close> is assigned inside the parameter loop, so a relation definition
  without parameters leaves it as it was.
\<close>

definition applyDefinition ::
  "(string \<Rightarrow> string) \<Rightarrow> string \<Rightarrow> metadata \<times> field \<Rightarrow> tag_Definition \<Rightarrow>
     error + metadata \<times> field" where
  "applyDefinition lowerRunes fname mf d =
     (let meta = fst mf; MetaField = snd mf; n = toLower lowerRunes (Name d) in
      if n = ''id'' then Inr (meta\<lparr> m_idField := fname \<rparr>, MetaField)
      else if n = ''omitempty'' then Inr (meta, MetaField\<lparr> f_omitempty := True \<rparr>)
      else if n = ''index'' then
        Inr (meta,
             if (\<exists>p \<in> set (Parameters d). toLower lowerRunes (Key p) = ''unique'')
             then MetaField\<lparr> f_index := True, f_unique := True \<rparr>
             else MetaField\<lparr> f_index := True \<rparr>)
      else if n = ''composite'' then Inr (meta, MetaField\<lparr> f_composite := True \<rparr>)
      else if n = ''referencemany'' \<or> n = ''referenceone'' then
        (let Relation = (if n = ''referencemany''
                         then zeroRelation\<lparr> r_relation := referenceMany \<rparr>
                         else zeroRelation\<lparr> r_relation := referenceOne \<rparr>);
             MetaField' = (if n = ''referencemany''
                           then MetaField\<lparr> f_key :=
                                  ''odm:'' @ toLower lowerRunes fname @ ''ids'' \<rparr>
                           else MetaField\<lparr> f_key :=
                                  ''odm:'' @ toLower lowerRunes fname @ ''id'' \<rparr>)
         in if Parameters d = [] then Inr (meta, MetaField')
            else (case relationParameters lowerRunes Relation (Parameters d) of
                    Inl e \<Rightarrow> Inl e
                  | Inr R \<Rightarrow> Inr (meta, MetaField'\<lparr> f_relation := R \<rparr>)))
      else Inl ErrInvalidAnnotation)"

fun applyDefinitions ::
  "(string \<Rightarrow> string) \<Rightarrow> string \<Rightarrow> metadata \<times> field \<Rightarrow> tag_Definition list \<Rightarrow>
     error + metadata \<times> field" where
  "applyDefinitions lowerRunes fname mf [] = Inr mf"
| "applyDefinitions lowerRunes fname mf (d # ds) =
     (case applyDefinition lowerRunes fname mf d of
        Inl e \<Rightarrow> Inl e
      | Inr mf' \<Rightarrow> applyDefinitions lowerRunes fname mf' ds)"

text \<open>\<^verbatim>\<open>resolveKeyForField\<close> (lines 1353-1364); \<^verbatim>\<open>Struct.FieldByName\<close> is \<open>find\<close>.\<close>

definition resolveKeyForField ::
  "(string \<Rightarrow> string) \<Rightarrow> sfield list \<Rightarrow> string \<Rightarrow> string" where
  "resolveKeyForField lowerRunes Type n =
     (case find (\<lambda>f. sf_name f = n) Type of
        None \<Rightarrow> []
      | Some f \<Rightarrow>
          (case Split (sf_bson f) CHR '','' of
             [] \<Rightarrow> toLower lowerRunes (sf_name f)
           | p # ps \<Rightarrow> if p \<noteq> [] \<and> p \<noteq> ''-'' then p else toLower lowerRunes (sf_name f)))"

text \<open>
  The body of the field loop of \<^verbatim>\<open>getTypeMetadatas\<close> (lines 1230-1342). A field whose
  storage key is \<^verbatim>\<open>-\<close>, or whose ODM tag is \<^verbatim>\<open>-\<close>, is left by \<^verbatim>\<open>continue\<close> before it
  is appended to \<open>meta.fields\<close>.
\<close>

definition compileField ::
  "parser \<Rightarrow> (string \<Rightarrow> string) \<Rightarrow> sfield list \<Rightarrow> metadata \<Rightarrow> sfield \<Rightarrow> error + metadata" where
  "compileField Parse lowerRunes Type meta Fld =
     (let MetaField0 = \<lparr> f_composite = False, f_index = False, f_unique = False,
            f_key = toLower lowerRunes (sf_name Fld), f_name = sf_name Fld,
            f_omitempty = False,
            f_relation = zeroRelation, f_ignore = False \<rparr>;
          parts = Split (sf_bson Fld) CHR '','';
          key = (case parts of [] \<Rightarrow> [] | p # ps \<Rightarrow> TrimSpace p);
          MetaField1 = (if key \<noteq> [] then MetaField0\<lparr> f_key := key \<rparr> else MetaField0);
          meta1 = (if key = ''_id''
                   then meta\<lparr> m_idField := sf_name Fld, m_idKey := ''_id'' \<rparr> else meta)
      in if key = ''-'' then Inr meta1
         else
          (let MetaField2 =
                 (if length parts > 1 \<and> TrimSpace (parts ! 1) = ''omitempty''
                  then MetaField1\<lparr> f_omitempty := True \<rparr> else MetaField1)
           in if sf_odm Fld = ''-'' then Inr meta1
              else
               (case Parse (sf_odm Fld) of
                  Inl e \<Rightarrow> Inl e
                | Inr definitions \<Rightarrow>
                   (case applyDefinitions lowerRunes (sf_name Fld) (meta1, MetaField2) definitions of
                      Inl e \<Rightarrow> Inl e
                    | Inr (meta2, MetaField3) \<Rightarrow>
                       (let MetaField4 =
                              (if f_index MetaField3 \<and> hasRelation MetaField3
                               then MetaField3\<lparr> f_index := False \<rparr> else MetaField3);
                            MetaField5 =
                              (if r_idStorageField (f_relation MetaField4) \<noteq> []
                               then (let k = resolveKeyForField lowerRunes Type
                                               (r_idStorageField (f_relation MetaField4))
                                     in if k \<noteq> [] then MetaField4\<lparr> f_key := k \<rparr>
                                        else MetaField4)
                               else MetaField4)
                        in Inr (meta2\<lparr> m_fields := m_fields meta2 @ [MetaField5] \<rparr>))))))"

fun compileFields ::
  "parser \<Rightarrow> (string \<Rightarrow> string) \<Rightarrow> sfield list \<Rightarrow> metadata \<Rightarrow> sfield list \<Rightarrow>
     error + metadata" where
  "compileFields Parse lowerRunes Type meta [] = Inr meta"
| "compileFields Parse lowerRunes Type meta (Fld # rest) =
     (case compileField Parse lowerRunes Type meta Fld of
        Inl e \<Rightarrow> Inl e
      | Inr meta' \<Rightarrow> compileFields Parse lowerRunes Type meta' rest)"

definition getTypeMetadatas ::
  "parser \<Rightarrow> (string \<Rightarrow> string) \<Rightarrow> sfield list \<Rightarrow> error + metadata" where
  "getTypeMetadatas Parse lowerRunes Type =
     compileFields Parse lowerRunes Type zeroMetadata Type"

section \<open>The document manager\<close>

text \<open>
  The registry \<^verbatim>\<open>map[reflect.Type]metadata\<close> is keyed by the name of the struct
  type behind the registered pointer type. It is kept as an association list in
  registration order, so that \<^verbatim>\<open>findMetadataByCollectionName\<close>, which ranges over
  the Go map in an unspecified order, has a definite result when two types name the
  same collection. The task buffer \<^verbatim>\<open>map[interface{}]task\<close> is an association list
  too; \<^verbatim>\<open>pop\<close> takes the index of the entry that the range statement yields.

  A projected record (\<^verbatim>\<open>map[string]interface{}\<close>) is an association list with at
  most one entry per key. The driver is a record of functions that answer from the
  history of the writes sent so far; the manager logs every write in \<open>calls\<close>.
  \<open>fresh\<close> is the state of \<^verbatim>\<open>bson.NewObjectId\<close>.
\<close>

type_synonym metadatas = "(tyname \<times> metadata) list"
type_synonym tasks = "(document \<times> task) list"
type_synonym object = "string \<rightharpoonup> val"
type_synonym heap = "addr \<rightharpoonup> object"
type_synonym record_map = "(string \<times> val) list"

record mgo_Index =
  IndexKey :: "string list"
  Unique :: bool

datatype call =
    CUpsertId string "val option" record_map
  | CRemoveId string "val option"
  | CEnsureIndex string mgo_Index

record manager =
  metadatas :: metadatas
  tasks :: tasks
  heap :: heap
  fresh :: nat
  calls :: "call list"

definition NewDocumentManager :: "heap \<Rightarrow> nat \<Rightarrow> manager" where
  "NewDocumentManager h n =
     \<lparr> metadatas = [], tasks = [], heap = h, fresh = n, calls = [] \<rparr>"

text \<open>Assignment \<^verbatim>\<open>m[k] = v\<close> on an association list.\<close>

fun assign :: "('k \<times> 'v) list \<Rightarrow> 'k \<Rightarrow> 'v \<Rightarrow> ('k \<times> 'v) list" where
  "assign [] k v = [(k, v)]"
| "assign ((k', v') # m) k v = (if k' = k then (k, v) # m else (k', v') # assign m k v)"

text \<open>
  \<^verbatim>\<open>Register\<close> (lines 136-155). Its argument \<open>document\<close> is an interface value:
  \<open>None\<close> is the nil interface, \<open>Some (t, isNil)\<close> a value of dynamic type \<open>t\<close>
  that, when \<open>t\<close> is a pointer type, is the nil pointer if \<open>isNil\<close> holds.
  \<^verbatim>\<open>reflect.TypeOf\<close> of the nil interface is nil, so that \<^verbatim>\<open>Kind\<close> panics; a nil
  pointer to a struct passes both kind checks and \<^verbatim>\<open>getTypeMetadatas\<close> panics on the
  type of the zero \<^verbatim>\<open>reflect.Value\<close> that \<^verbatim>\<open>reflect.Indirect\<close> gives.
\<close>

definition Register ::
  "parser \<Rightarrow> (string \<Rightarrow> string) \<Rightarrow> string \<Rightarrow> (gotype \<times> bool) option \<Rightarrow> manager \<Rightarrow>
     error option \<times> manager" where
  "Register Parse lowerRunes targetDocument document manager =
     (case document of
        None \<Rightarrow> (Some Panic, manager)
      | Some (documentType, isNil) \<Rightarrow>
          (case documentType of
             PtrTo (Struct T flds) \<Rightarrow>
               if isNil then (Some Panic, manager)
               else
                (case getTypeMetadatas Parse lowerRunes flds of
                   Inl err \<Rightarrow> (Some err, manager)
                 | Inr meta \<Rightarrow>
                     (None, manager\<lparr> metadatas :=
                        assign (metadatas manager) T
                          (meta\<lparr> m_structType := T, m_targetDocument := targetDocument \<rparr>) \<rparr>))
           | PtrTo _ \<Rightarrow> (Some ErrNotAstruct, manager)
           | _ \<Rightarrow> (Some ErrNotAPointer, manager)))"

text \<open>
  What the spec calls an unrecognized annotation: a definition whose name is none of the
  six names of the definition switch, or a relation definition with a parameter whose key
  is none of the six keys of the parameter switch.
\<close>

definition recognizedNames :: "string set" where
  "recognizedNames =
     {''id'', ''omitempty'', ''index'', ''composite'', ''referencemany'', ''referenceone''}"

definition recognizedKeys :: "string set" where
  "recognizedKeys =
     {''mappedby'', ''inversedby'', ''targetdocument'', ''cascade'', ''storeid'', ''load''}"

definition unrecognized :: "(string \<Rightarrow> string) \<Rightarrow> tag_Definition \<Rightarrow> bool" where
  "unrecognized lowerRunes d =
     (toLower lowerRunes (Name d) \<notin> recognizedNames \<or>
      ((toLower lowerRunes (Name d) = ''referencemany'' \<or>
        toLower lowerRunes (Name d) = ''referenceone'') \<and>
       (\<exists>p \<in> set (Parameters d). toLower lowerRunes (Key p) \<notin> recognizedKeys)))"

text \<open>The storage key of a field, and whether the compiler reads the field's ODM tag.\<close>

definition storageKey :: "sfield \<Rightarrow> string" where
  "storageKey f = (case Split (sf_bson f) CHR '','' of [] \<Rightarrow> [] | p # ps \<Rightarrow> TrimSpace p)"

definition readsODM :: "sfield \<Rightarrow> bool" where
  "readsODM f = (storageKey f \<noteq> ''-'' \<and> sf_odm f \<noteq> ''-'')"

text \<open>
  A tokenizer for the tags of the examples below. The names and the tags of the examples
  are ASCII strings, on which \<^verbatim>\<open>strings.ToLower\<close> does not reach its Unicode path;
  \<open>sampleLower\<close> stands for that path there.
\<close>

definition sampleLower :: "string \<Rightarrow> string" where
  "sampleLower s = s"

definition sampleParse :: parser where
  "sampleParse s =
     (if s = [] then Inr []
      else if s = ''foo()'' then Inr [\<lparr> Name = ''foo'', Parameters = [] \<rparr>]
      else if s = ''id'' then Inr [\<lparr> Name = ''id'', Parameters = [] \<rparr>]
      else if s = ''index(unique)'' then
        Inr [\<lparr> Name = ''index'', Parameters = [\<lparr> Key = ''unique'', Value = [] \<rparr>] \<rparr>]
      else if s = ''referenceOne(unknownParam=x)'' then
        Inr [\<lparr> Name = ''referenceOne'',
               Parameters = [\<lparr> Key = ''unknownParam'', Value = ''x'' \<rparr>] \<rparr>]
      else Inl (ErrSyntax s))"

section \<open>Identity helpers\<close>

text \<open>
  \<^verbatim>\<open>bson.NewObjectId\<close> and \<^verbatim>\<open>ObjectId.Valid\<close> belong to the driver library: the
  generator is modelled by a counter that is written into twelve bytes.
\<close>

definition NewObjectId :: "nat \<Rightarrow> string" where
  "NewObjectId n = map (\<lambda>i. char_of (n div 256 ^ (11 - i))) [0..<12]"

definition Valid :: "string \<Rightarrow> bool" where
  "Valid oid = (length oid = 12)"

definition zeroObjectID :: string where
  "zeroObjectID = []"

text \<open>\<^verbatim>\<open>isZero\<close> (lines 1199-1208).\<close>

fun isZero :: "val \<Rightarrow> bool" where
  "isZero (VSlice xs) = (xs = [])"
| "isZero (VObjectId s) = (s = [])"
| "isZero (VString s) = (s = [])"
| "isZero (VInt i) = (i = 0)"
| "isZero (VBool b) = (\<not> b)"
| "isZero (VPtr T p) = (p = None)"

text \<open>
  The registry key of the dynamic type of an interface value: only pointers to structs
  are ever registered, so every other value, and the nil interface, has no key.
\<close>

fun typeKey :: "document \<Rightarrow> tyname option" where
  "typeKey (Some (VPtr T p)) = Some T"
| "typeKey _ = None"

text \<open>
  \<^verbatim>\<open>v.Elem().FieldByName(n).Interface()\<close> on a pointer value \<open>v\<close>: \<open>None\<close> stands for
  the panic that reflection raises when \<open>v\<close> is not a pointer, is nil, or the struct
  has no exported field \<open>n\<close>. An object of the heap maps the names of the exported
  fields of a struct to their values; \<^verbatim>\<open>Interface\<close> and \<^verbatim>\<open>Set\<close> panic on a field
  that is not exported.
\<close>

fun elemField :: "heap \<Rightarrow> val \<Rightarrow> string \<Rightarrow> val option" where
  "elemField h (VPtr T (Some a)) n = (case h a of None \<Rightarrow> None | Some obj \<Rightarrow> obj n)"
| "elemField h _ n = None"

fun fieldOf :: "heap \<Rightarrow> document \<Rightarrow> string \<Rightarrow> val option" where
  "fieldOf h (Some v) n = elemField h v n"
| "fieldOf h None n = None"

text \<open>\<^verbatim>\<open>v.Elem().FieldByName(n).Set(x)\<close>, where the field exists.\<close>

fun setElemField :: "heap \<Rightarrow> val \<Rightarrow> string \<Rightarrow> val \<Rightarrow> heap" where
  "setElemField h (VPtr T (Some a)) n x =
     (case h a of None \<Rightarrow> h | Some obj \<Rightarrow> h(a \<mapsto> obj(n \<mapsto> x)))"
| "setElemField h _ n x = h"

definition findField :: "metadata \<Rightarrow> string \<Rightarrow> field option" where
  "findField meta fieldname = find (\<lambda>f. f_name f = fieldname) (m_fields meta)"

definition findIDField :: "metadata \<Rightarrow> field option" where
  "findIDField meta = find (\<lambda>f. f_key f = ''_id'') (m_fields meta)"

definition metaHasRelation :: "metadata \<Rightarrow> bool" where
  "metaHasRelation meta = (\<exists>f \<in> set (m_fields meta). hasRelation f)"

definition getFieldsWithRelation :: "metadata \<Rightarrow> field list" where
  "getFieldsWithRelation meta = filter hasRelation (m_fields meta)"

definition hasFieldWithIndex :: "metadata \<Rightarrow> bool" where
  "hasFieldWithIndex meta = (\<exists>f \<in> set (m_fields meta). f_index f)"

definition getIndexes :: "metadata \<Rightarrow> mgo_Index list" where
  "getIndexes meta =
     map (\<lambda>f. \<lparr> IndexKey = [f_key f], Unique = f_unique f \<rparr>) (filter f_index (m_fields meta))"

definition hasFieldWithComposite :: "metadata \<Rightarrow> bool" where
  "hasFieldWithComposite meta = (\<exists>f \<in> set (m_fields meta). f_composite f)"

definition getComposites :: "metadata \<Rightarrow> mgo_Index list" where
  "getComposites meta =
     [\<lparr> IndexKey = map f_key (filter f_composite (m_fields meta)), Unique = True \<rparr>]"

definition getMetadatas :: "metadatas \<Rightarrow> tyname option \<Rightarrow> error + metadata" where
  "getMetadatas metas Type =
     (case Type of
        None \<Rightarrow> Inl ErrDocumentNotRegistered
      | Some T \<Rightarrow> (case map_of metas T of
                     None \<Rightarrow> Inl ErrDocumentNotRegistered
                   | Some meta \<Rightarrow> Inr meta))"

definition findMetadataByCollectionName :: "metadatas \<Rightarrow> string \<Rightarrow> (tyname \<times> metadata) option" where
  "findMetadataByCollectionName metas n = find (\<lambda>tm. m_targetDocument (snd tm) = n) metas"

text \<open>
  \<^verbatim>\<open>getDocumentID\<close> (lines 975-987) returns the identifier and an error; a panic is
  reported as the error \<open>Panic\<close>. \<^verbatim>\<open>Value.Type()\<close> panics on the nil interface.
\<close>

definition getDocumentID :: "metadatas \<Rightarrow> heap \<Rightarrow> document \<Rightarrow> string \<times> error option" where
  "getDocumentID metas h document =
     (case document of
        None \<Rightarrow> ([], Some Panic)
      | Some v \<Rightarrow>
         (case getMetadatas metas (typeKey document) of
            Inl e \<Rightarrow> ([], Some ErrDocumentNotRegistered)
          | Inr meta \<Rightarrow>
             (case findIDField meta of
                None \<Rightarrow> ([], Some ErrIDFieldNotFound)
              | Some idFields \<Rightarrow>
                 (case elemField h v (f_name idFields) of
                    Some (VObjectId oid) \<Rightarrow> (oid, None)
                  | _ \<Rightarrow> ([], Some Panic)))))"

text \<open>
  \<^verbatim>\<open>setIDForValue\<close> (lines 964-972). \<^verbatim>\<open>Set\<close> panics unless the field exists and
  holds an object identifier.
\<close>

definition setIDForValue :: "metadatas \<Rightarrow> heap \<Rightarrow> document \<Rightarrow> string \<Rightarrow> error option \<times> heap" where
  "setIDForValue metas h document oid =
     (case document of
        None \<Rightarrow> (Some Panic, h)
      | Some v \<Rightarrow>
         (case getMetadatas metas (typeKey document) of
            Inl e \<Rightarrow> (Some ErrDocumentNotRegistered, h)
          | Inr meta \<Rightarrow>
             (case elemField h v (m_idField meta) of
                Some (VObjectId old) \<Rightarrow> (None, setElemField h v (m_idField meta) (VObjectId oid))
              | _ \<Rightarrow> (Some Panic, h))))"

section \<open>Unit of work\<close>

text \<open>A slice cannot be the key of a Go map: the assignment panics.\<close>

fun hashable :: "document \<Rightarrow> bool" where
  "hashable (Some (VSlice xs)) = False"
| "hashable _ = True"

text \<open>
  \<^verbatim>\<open>Persist\<close> (lines 166-175) and \<^verbatim>\<open>Remove\<close> (lines 177-179). Neither returns a
  value in Go; the error component is \<open>Some Panic\<close> when the call panics and \<open>None\<close>
  when it returns.
\<close>

definition Persist :: "document \<Rightarrow> manager \<Rightarrow> error option \<times> manager" where
  "Persist v manager =
     (case getDocumentID (metadatas manager) (heap manager) v of
        (oid, err) \<Rightarrow>
          if err = Some Panic then (Some Panic, manager)
          else if \<not> Valid oid then
            (case setIDForValue (metadatas manager) (heap manager) v
                    (NewObjectId (fresh manager)) of
               (err', h') \<Rightarrow>
                 if err' = Some Panic \<or> \<not> hashable v then (Some Panic, manager)
                 else (None, manager\<lparr> heap := h', fresh := Suc (fresh manager),
                                       tasks := assign (tasks manager) v insertTask \<rparr>))
          else if \<not> hashable v then (Some Panic, manager)
          else (None, manager\<lparr> tasks := assign (tasks manager) v updateTask \<rparr>))"

definition Remove :: "document \<Rightarrow> manager \<Rightarrow> error option \<times> manager" where
  "Remove document manager =
     (if \<not> hashable document then (Some Panic, manager)
      else (None, manager\<lparr> tasks := assign (tasks manager) document del \<rparr>))"

section \<open>Projection\<close>

text \<open>One iteration of the loop of \<^verbatim>\<open>structToMap\<close> (lines 314-326).\<close>

definition projectField ::
  "heap \<Rightarrow> document \<Rightarrow> string \<Rightarrow> field \<Rightarrow> record_map \<Rightarrow> error + record_map" where
  "projectField h v idField f result =
     (if f_ignore f then Inr result
      else
       (case (if f_omitempty f then map_option isZero (fieldOf h v (f_name f))
              else Some False) of
          None \<Rightarrow> Inl Panic
        | Some True \<Rightarrow> Inr result
        | Some False \<Rightarrow>
            if hasRelation f then Inr result
            else (case fieldOf h v (f_name f) of
                    None \<Rightarrow> Inl Panic
                  | Some x \<Rightarrow>
                      if f_name f = idField then Inr (assign result ''_id'' x)
                      else Inr (assign result (f_key f) x))))"

fun projectFields ::
  "heap \<Rightarrow> document \<Rightarrow> string \<Rightarrow> field list \<Rightarrow> record_map \<Rightarrow> error + record_map" where
  "projectFields h v idField [] result = Inr result"
| "projectFields h v idField (f # fs) result =
     (case projectField h v idField f result of
        Inl e \<Rightarrow> Inl e
      | Inr result' \<Rightarrow> projectFields h v idField fs result')"

text \<open>
  \<^verbatim>\<open>structToMap\<close> (lines 308-328). The registry lookup of an unregistered type
  yields the zero metadata, which has no fields.
\<close>

definition structToMap :: "metadatas \<Rightarrow> heap \<Rightarrow> document \<Rightarrow> error + record_map" where
  "structToMap metas h v =
     (case v of
        None \<Rightarrow> Inl Panic
      | Some x \<Rightarrow>
         (let meta = (case getMetadatas metas (typeKey v) of
                        Inl e \<Rightarrow> zeroMetadata | Inr m \<Rightarrow> m)
          in projectFields h v (m_idField meta) (m_fields meta) []))"

definition stripID :: "record_map \<Rightarrow> record_map" where
  "stripID Map = filter (\<lambda>kv. fst kv \<noteq> ''_id'') Map"

section \<open>Persistence engine\<close>

text \<open>
  The driver's write operations on a named collection. Each answers from the history
  of the writes already sent, so that any database behaviour is an instance.
\<close>

record driver =
  UpsertId :: "call list \<Rightarrow> string \<Rightarrow> val option \<Rightarrow> record_map \<Rightarrow> error option"
  RemoveId :: "call list \<Rightarrow> string \<Rightarrow> val option \<Rightarrow> error option"
  EnsureIndex :: "call list \<Rightarrow> string \<Rightarrow> mgo_Index \<Rightarrow> error option"

text \<open>The loop over \<^verbatim>\<open>many.Index(i)\<close> of \<^verbatim>\<open>doRemove\<close> (lines 345-355).\<close>

fun removeMany :: "heap \<Rightarrow> metadata \<Rightarrow> val list \<Rightarrow> tasks \<Rightarrow> error + tasks" where
  "removeMany h meta [] ts = Inr ts"
| "removeMany h meta (doc # docs) ts =
     (case findIDField meta of
        None \<Rightarrow> removeMany h meta docs ts
      | Some idField \<Rightarrow>
         (case elemField h doc (f_name idField) of
            None \<Rightarrow> Inl Panic
          | Some oid \<Rightarrow>
              removeMany h meta docs
                (if \<not> isZero oid then assign ts (Some doc) del else ts)))"

text \<open>The body of the relation loop of \<^verbatim>\<open>doRemove\<close> (lines 339-375).\<close>

definition removeCascade ::
  "metadatas \<Rightarrow> heap \<Rightarrow> document \<Rightarrow> field \<Rightarrow> tasks \<Rightarrow> error + tasks" where
  "removeCascade metas h document f ts =
     (if r_cascade (f_relation f) = cascadeAll \<or> r_cascade (f_relation f) = cascadeRemove
      then
       (case r_relation (f_relation f) of
          referenceMany \<Rightarrow>
            (case findMetadataByCollectionName metas (r_targetDocument (f_relation f)) of
               None \<Rightarrow> Inr ts
             | Some (Type, meta) \<Rightarrow>
                 (case fieldOf h document (f_name f) of
                    Some (VSlice many) \<Rightarrow> removeMany h meta many ts
                  | _ \<Rightarrow> Inl Panic))
        | referenceOne \<Rightarrow>
            (case findMetadataByCollectionName metas (r_targetDocument (f_relation f)) of
               None \<Rightarrow> Inr ts
             | Some (Type, meta) \<Rightarrow>
                 (case fieldOf h document (f_name f) of
                    None \<Rightarrow> Inl Panic
                  | Some one \<Rightarrow>
                      if isZero one then Inr ts
                      else
                       (case findIDField meta of
                          None \<Rightarrow> Inr ts
                        | Some idField \<Rightarrow>
                           (case elemField h one (f_name idField) of
                              None \<Rightarrow> Inl Panic
                            | Some oid \<Rightarrow>
                                Inr (if \<not> isZero oid then assign ts (Some one) del
                                     else ts)))))
        | noRelationType \<Rightarrow> Inr ts)
      else Inr ts)"

fun removeCascades ::
  "metadatas \<Rightarrow> heap \<Rightarrow> document \<Rightarrow> field list \<Rightarrow> tasks \<Rightarrow> error + tasks" where
  "removeCascades metas h document [] ts = Inr ts"
| "removeCascades metas h document (f # fs) ts =
     (case removeCascade metas h document f ts of
        Inl e \<Rightarrow> Inl e
      | Inr ts' \<Rightarrow> removeCascades metas h document fs ts')"

text \<open>
  \<^verbatim>\<open>doRemove\<close> (lines 330-386). A panic leaves no state behind: the manager is then
  returned as it was. The error of \<^verbatim>\<open>setIDForValue\<close> is dropped by the source.
\<close>

definition doRemove :: "driver \<Rightarrow> document \<Rightarrow> manager \<Rightarrow> error option \<times> manager" where
  "doRemove drv document manager =
     (case getMetadatas (metadatas manager) (typeKey document) of
        Inl e \<Rightarrow> (Some ErrDocumentNotRegistered, manager)
      | Inr meta \<Rightarrow>
         (case structToMap (metadatas manager) (heap manager) document of
            Inl e \<Rightarrow> (Some Panic, manager)
          | Inr Map \<Rightarrow>
             (case (if metaHasRelation meta
                    then removeCascades (metadatas manager) (heap manager) document
                           (getFieldsWithRelation meta) (tasks manager)
                    else Inr (tasks manager)) of
                Inl e \<Rightarrow> (Some Panic, manager)
              | Inr ts \<Rightarrow>
                 (let manager1 = manager\<lparr> tasks := ts,
                        calls := calls manager @
                          [CRemoveId (m_targetDocument meta) (map_of Map ''_id'')] \<rparr>
                  in case RemoveId drv (calls manager) (m_targetDocument meta)
                            (map_of Map ''_id'') of
                       Some err \<Rightarrow> (Some err, manager1)
                     | None \<Rightarrow>
                        (case setIDForValue (metadatas manager) (heap manager) document
                                zeroObjectID of
                           (err, h') \<Rightarrow>
                             if err = Some Panic then (Some Panic, manager1)
                             else (None, manager1\<lparr> heap := h' \<rparr>))))))"

text \<open>
  Lines 410-414 and 433-436 of \<^verbatim>\<open>doPersist\<close>: read the identifier of a related
  document, generate one when it is zero, and assert that it is an object identifier.
\<close>

definition ensureID :: "heap \<Rightarrow> nat \<Rightarrow> val \<Rightarrow> string \<Rightarrow> error + heap \<times> nat \<times> string" where
  "ensureID h n doc idName =
     (case elemField h doc idName of
        None \<Rightarrow> Inl Panic
      | Some (VObjectId oid) \<Rightarrow>
          if oid = [] then Inr (setElemField h doc idName (VObjectId (NewObjectId n)), Suc n,
                               NewObjectId n)
          else Inr (h, n, oid)
      | Some other \<Rightarrow> Inl Panic)"

text \<open>The loop over \<^verbatim>\<open>many.Index(i)\<close> of \<^verbatim>\<open>doPersist\<close> (lines 404-418).\<close>

fun persistMany ::
  "metadata \<Rightarrow> cascade \<Rightarrow> val list \<Rightarrow> heap \<times> nat \<times> tasks \<times> string list \<Rightarrow>
   error + heap \<times> nat \<times> tasks \<times> string list" where
  "persistMany meta c [] st = Inr st"
| "persistMany meta c (doc # docs) (h, n, ts, objectIDs) =
     (case findIDField meta of
        None \<Rightarrow> persistMany meta c docs (h, n, ts, objectIDs)
      | Some idField \<Rightarrow>
         (case ensureID h n doc (f_name idField) of
            Inl e \<Rightarrow> Inl e
          | Inr (h', n', oid) \<Rightarrow>
              persistMany meta c docs
                (h', n',
                 if c = cascadeAll \<or> c = cascadePersist then assign ts (Some doc) insertTask
                 else ts,
                 objectIDs @ [oid])))"

text \<open>
  The body of the relation loop of \<^verbatim>\<open>doPersist\<close> (lines 397-443); the state is the
  heap, the identifier counter, the task buffer and the projected record.
\<close>

definition persistRelation ::
  "metadatas \<Rightarrow> document \<Rightarrow> field \<Rightarrow> heap \<times> nat \<times> tasks \<times> record_map \<Rightarrow>
   error + heap \<times> nat \<times> tasks \<times> record_map" where
  "persistRelation metas document f st =
     (case st of (h, n, ts, Map) \<Rightarrow>
      if r_mapped (f_relation f) \<noteq> mappedBy then
       (case r_relation (f_relation f) of
          referenceMany \<Rightarrow>
            (case findMetadataByCollectionName metas (r_targetDocument (f_relation f)) of
               None \<Rightarrow> Inr (h, n, ts, assign Map (f_key f) (VSlice []))
             | Some (Type, meta) \<Rightarrow>
                 (case fieldOf h document (f_name f) of
                    Some (VSlice many) \<Rightarrow>
                      (case persistMany meta (r_cascade (f_relation f)) many (h, n, ts, []) of
                         Inl e \<Rightarrow> Inl e
                       | Inr (h', n', ts', objectIDs) \<Rightarrow>
                           Inr (h', n', ts',
                                assign Map (f_key f) (VSlice (map VObjectId objectIDs))))
                  | _ \<Rightarrow> Inl Panic))
        | referenceOne \<Rightarrow>
            (case findMetadataByCollectionName metas (r_targetDocument (f_relation f)) of
               None \<Rightarrow> Inr st
             | Some (Type, meta) \<Rightarrow>
                 (case fieldOf h document (f_name f) of
                    None \<Rightarrow> Inl Panic
                  | Some one \<Rightarrow>
                      if isZero one then Inr st
                      else
                       (case findIDField meta of
                          None \<Rightarrow> Inr st
                        | Some idField \<Rightarrow>
                           (case ensureID h n one (f_name idField) of
                              Inl e \<Rightarrow> Inl e
                            | Inr (h', n', oid) \<Rightarrow>
                                Inr (h', n',
                                     if r_cascade (f_relation f) = cascadeAll \<or>
                                        r_cascade (f_relation f) = cascadePersist
                                     then assign ts (Some one) insertTask else ts,
                                     assign Map (f_key f) (VObjectId oid))))))
        | noRelationType \<Rightarrow> Inr st)
      else Inr st)"

fun persistRelations ::
  "metadatas \<Rightarrow> document \<Rightarrow> field list \<Rightarrow> heap \<times> nat \<times> tasks \<times> record_map \<Rightarrow>
   error + heap \<times> nat \<times> tasks \<times> record_map" where
  "persistRelations metas document [] st = Inr st"
| "persistRelations metas document (f # fs) st =
     (case persistRelation metas document f st of
        Inl e \<Rightarrow> Inl e
      | Inr st' \<Rightarrow> persistRelations metas document fs st')"

text \<open>\<^verbatim>\<open>doPersist\<close> (lines 388-453).\<close>

definition doPersist :: "driver \<Rightarrow> document \<Rightarrow> manager \<Rightarrow> error option \<times> manager" where
  "doPersist drv document manager =
     (case getMetadatas (metadatas manager) (typeKey document) of
        Inl e \<Rightarrow> (Some ErrDocumentNotRegistered, manager)
      | Inr meta \<Rightarrow>
         (case structToMap (metadatas manager) (heap manager) document of
            Inl e \<Rightarrow> (Some Panic, manager)
          | Inr Map0 \<Rightarrow>
             (case (if metaHasRelation meta
                    then persistRelations (metadatas manager) document
                           (getFieldsWithRelation meta)
                           (heap manager, fresh manager, tasks manager, Map0)
                    else Inr (heap manager, fresh manager, tasks manager, Map0)) of
                Inl e \<Rightarrow> (Some Panic, manager)
              | Inr (h, n, ts, Map) \<Rightarrow>
                 (let manager1 = manager\<lparr> heap := h, fresh := n, tasks := ts,
                        calls := calls manager @
                          [CUpsertId (m_targetDocument meta) (map_of Map ''_id'')
                             (stripID Map)] \<rparr>
                  in (UpsertId drv (calls manager) (m_targetDocument meta)
                        (map_of Map ''_id'') (stripID Map), manager1)))))"

text \<open>
  The index loops of \<^verbatim>\<open>Flush\<close> (lines 200-220): every index is sent to the driver
  until one fails.
\<close>

fun ensureIndexes :: "driver \<Rightarrow> string \<Rightarrow> mgo_Index list \<Rightarrow> manager \<Rightarrow> error option \<times> manager" where
  "ensureIndexes drv coll [] manager = (None, manager)"
| "ensureIndexes drv coll (index # rest) manager =
     (let manager1 = manager\<lparr> calls := calls manager @ [CEnsureIndex coll index] \<rparr>
      in case EnsureIndex drv (calls manager) coll index of
           Some err \<Rightarrow> (Some err, manager1)
         | None \<Rightarrow> ensureIndexes drv coll rest manager1)"

text \<open>
  \<^verbatim>\<open>tasks.pop\<close> (lines 1137-1143) removes and returns the entry that the range
  statement yields first; which one is not specified by Go, so the index is an argument.
\<close>

definition pop :: "nat \<Rightarrow> tasks \<Rightarrow> (document \<times> task) \<times> tasks" where
  "pop c ts = (let i = c mod length ts in (ts ! i, take i ts @ drop (Suc i) ts))"

text \<open>One iteration of the loop of \<^verbatim>\<open>Flush\<close> (lines 187-224), for a non-empty buffer.\<close>

definition flushStep :: "driver \<Rightarrow> nat \<Rightarrow> manager \<Rightarrow> error option \<times> manager" where
  "flushStep drv c manager =
     (case pop c (tasks manager) of
        ((document, theTask), rest) \<Rightarrow>
          (let manager1 = manager\<lparr> tasks := rest \<rparr> in
           case theTask of
             del \<Rightarrow> doRemove drv document manager1
           | _ \<Rightarrow>
              (case getMetadatas (metadatas manager1) (typeKey document) of
                 Inl e \<Rightarrow> (Some e, manager1)
               | Inr metaData \<Rightarrow>
                  (case (if hasFieldWithIndex metaData
                         then ensureIndexes drv (m_targetDocument metaData)
                                (getIndexes metaData) manager1
                         else (None, manager1)) of
                     (Some err, manager2) \<Rightarrow> (Some err, manager2)
                   | (None, manager2) \<Rightarrow>
                      (case (if hasFieldWithComposite metaData
                             then ensureIndexes drv (m_targetDocument metaData)
                                    (getComposites metaData) manager2
                             else (None, manager2)) of
                         (Some err, manager3) \<Rightarrow> (Some err, manager3)
                       | (None, manager3) \<Rightarrow> doPersist drv document manager3)))))"

text \<open>
  \<^verbatim>\<open>Flush\<close> (lines 181-227). The loop runs as long as cascades refill the buffer, so
  the schedule \<open>cs\<close> of the indices given to \<^verbatim>\<open>pop\<close> also bounds the number of
  iterations: \<open>None\<close> means that the buffer is not empty when the schedule is used up.
\<close>

fun Flush :: "driver \<Rightarrow> nat list \<Rightarrow> manager \<Rightarrow> (error option \<times> manager) option" where
  "Flush drv [] manager = (if tasks manager = [] then Some (None, manager) else None)"
| "Flush drv (c # cs) manager =
     (if tasks manager = [] then Some (None, manager)
      else (case flushStep drv c manager of
              (Some err, manager') \<Rightarrow> Some (Some err, manager')
            | (None, manager') \<Rightarrow> Flush drv cs manager'))"

section \<open>Sample types and entities\<close>


definition odmUser :: gotype where
  "odmUser = PtrTo (Struct ''User'' [\<lparr> sf_name = ''ID'', sf_bson = [], sf_odm = ''id'' \<rparr>,
                                     \<lparr> sf_name = ''Name'', sf_bson = [], sf_odm = [] \<rparr>])"

text \<open>A heap with one user at address 0, whose identifier is \<open>oid\<close>.\<close>

definition userHeap :: "string \<Rightarrow> heap" where
  "userHeap oid = [0 \<mapsto> [''ID'' \<mapsto> VObjectId oid, ''Name'' \<mapsto> VString ''ann'']]"

definition theUser :: document where
  "theUser = Some (VPtr ''User'' (Some 0))"

definition managerOf :: "gotype \<Rightarrow> string \<Rightarrow> manager" where
  "managerOf t oid =
     snd (Register sampleParse sampleLower ''users'' (Some (t, False))
            (NewDocumentManager (userHeap oid) 0))"


text \<open>
  A struct whose only field is named \<^verbatim>\<open>_id\<close> and carries the annotation
  \<^verbatim>\<open>odm:"id"\<close>. The field is unexported, so reflection panics on reading or writing
  it: the object at address 0 of \<open>hiddenHeap\<close> offers no field to reflection.
\<close>

definition hiddenID :: gotype where
  "hiddenID = PtrTo (Struct ''Hidden'' [\<lparr> sf_name = ''_id'', sf_bson = [], sf_odm = ''id'' \<rparr>])"

definition hiddenHeap :: heap where
  "hiddenHeap = [0 \<mapsto> Map.empty]"

definition theHidden :: document where
  "theHidden = Some (VPtr ''Hidden'' (Some 0))"

definition hiddenManager :: manager where
  "hiddenManager =
     snd (Register sampleParse sampleLower ''hidden'' (Some (hiddenID, False))
            (NewDocumentManager hiddenHeap 0))"
section \<open>Annotation rejection\<close>

lemma relationParameter_error:
  "relationParameter L R p = Inl e \<Longrightarrow> e = ErrInvalidAnnotation"
  by (auto simp: relationParameter_def Let_def split: if_splits)

lemma relationParameter_unknown:
  "toLower L (Key p) \<notin> recognizedKeys \<Longrightarrow> relationParameter L R p = Inl ErrInvalidAnnotation"
  by (simp add: relationParameter_def recognizedKeys_def Let_def)

lemma relationParameters_error:
  "relationParameters L R ps = Inl e \<Longrightarrow> e = ErrInvalidAnnotation"
  by (induction ps arbitrary: R) (auto split: sum.splits dest: relationParameter_error)

lemma relationParameters_unknown:
  "\<exists>p \<in> set ps. toLower L (Key p) \<notin> recognizedKeys \<Longrightarrow>
   relationParameters L R ps = Inl ErrInvalidAnnotation"
proof (induction ps arbitrary: R)
  case Nil
  then show ?case by simp
next
  case (Cons p ps)
  show ?case
  proof (cases "relationParameter L R p")
    case (Inl e)
    then show ?thesis using relationParameter_error [OF Inl] by simp
  next
    case (Inr R')
    then have "toLower L (Key p) \<in> recognizedKeys"
      using relationParameter_unknown [of L p R] by auto
    with Cons.prems have "\<exists>q \<in> set ps. toLower L (Key q) \<notin> recognizedKeys" by auto
    from Cons.IH [OF this] Inr show ?thesis by simp
  qed
qed

lemma applyDefinition_error:
  "applyDefinition L fname mf d = Inl e \<Longrightarrow> e = ErrInvalidAnnotation"
  by (auto simp: applyDefinition_def Let_def split: if_splits sum.splits
           dest: relationParameters_error)

lemma applyDefinition_unrecognized:
  assumes "unrecognized L d"
  shows "applyDefinition L fname mf d = Inl ErrInvalidAnnotation"
proof (cases "toLower L (Name d) \<in> recognizedNames")
  case False
  then show ?thesis by (simp add: applyDefinition_def recognizedNames_def Let_def)
next
  case True
  with assms have rel: "toLower L (Name d) = ''referencemany'' \<or> toLower L (Name d) = ''referenceone''"
    and bad: "\<exists>p \<in> set (Parameters d). toLower L (Key p) \<notin> recognizedKeys"
    by (auto simp: unrecognized_def)
  from bad have ne: "Parameters d \<noteq> []" by auto
  from rel ne relationParameters_unknown [OF bad] show ?thesis
    by (auto simp: applyDefinition_def Let_def)
qed

lemma applyDefinitions_error:
  "applyDefinitions L fname mf ds = Inl e \<Longrightarrow> e = ErrInvalidAnnotation"
  by (induction ds arbitrary: mf) (auto split: sum.splits dest: applyDefinition_error)

lemma applyDefinitions_unrecognized:
  "\<exists>d \<in> set ds. unrecognized L d \<Longrightarrow> applyDefinitions L fname mf ds = Inl ErrInvalidAnnotation"
proof (induction ds arbitrary: mf)
  case Nil
  then show ?case by simp
next
  case (Cons d ds)
  show ?case
  proof (cases "applyDefinition L fname mf d")
    case (Inl e)
    then show ?thesis using applyDefinition_error [OF Inl] by simp
  next
    case (Inr mf')
    then have "\<not> unrecognized L d"
      using applyDefinition_unrecognized [of L d fname mf] by auto
    with Cons.prems have "\<exists>d' \<in> set ds. unrecognized L d'" by auto
    from Cons.IH [OF this] Inr show ?thesis by simp
  qed
qed

lemma compileField_error:
  assumes "compileField Parse L Type meta f = Inl e"
    and "readsODM f \<longrightarrow> (\<exists>ds. Parse (sf_odm f) = Inr ds)"
  shows "e = ErrInvalidAnnotation"
  using assms
  by (auto simp: compileField_def Let_def readsODM_def storageKey_def
           split: if_splits sum.splits dest: applyDefinitions_error)

lemma compileField_unrecognized:
  assumes "readsODM f" and "Parse (sf_odm f) = Inr ds" and "\<exists>d \<in> set ds. unrecognized L d"
  shows "compileField Parse L Type meta f = Inl ErrInvalidAnnotation"
  using assms applyDefinitions_unrecognized [OF assms(3)]
  by (simp add: compileField_def Let_def readsODM_def storageKey_def)

lemma compileField_ignored:
  "storageKey g = ''-'' \<Longrightarrow> compileField Parse L Type meta g = Inr meta"
  by (simp add: compileField_def storageKey_def Let_def)

lemma compileFields_first_unrecognized:
  assumes "\<forall>g \<in> set pre. readsODM g \<longrightarrow> (\<exists>ds. Parse (sf_odm g) = Inr ds)"
    and "readsODM f" and "Parse (sf_odm f) = Inr ds" and "\<exists>d \<in> set ds. unrecognized L d"
  shows "compileFields Parse L Type meta (pre @ f # post) = Inl ErrInvalidAnnotation"
  using assms(1)
proof (induction pre arbitrary: meta)
  case Nil
  have "compileField Parse L Type meta f = Inl ErrInvalidAnnotation"
    using assms(2-4) by (rule compileField_unrecognized)
  then show ?case by simp
next
  case (Cons g pre)
  show ?case
  proof (cases "compileField Parse L Type meta g")
    case (Inl e)
    from Cons.prems have "readsODM g \<longrightarrow> (\<exists>ds. Parse (sf_odm g) = Inr ds)" by simp
    from compileField_error [OF Inl this] Inl show ?thesis by simp
  next
    case (Inr meta')
    from Cons.prems
    have "\<forall>h \<in> set pre. readsODM h \<longrightarrow> (\<exists>ds. Parse (sf_odm h) = Inr ds)" by simp
    from Cons.IH [OF this] Inr show ?thesis by simp
  qed
qed

lemma Register_error_unchanged:
  "fst (Register Parse L targetDocument document manager) \<noteq> None \<Longrightarrow>
   snd (Register Parse L targetDocument document manager) = manager"
  by (auto simp: Register_def split: option.splits gotype.splits sum.splits)

text \<open>
  Claim C7, as amended. \<^verbatim>\<open>Register\<close> of a pointer to a zero instance of a struct
  returns \<^verbatim>\<open>ErrInvalidAnnotation\<close> and leaves the manager as it was whenever a field
  \<open>f\<close> whose ODM tag the compiler reads (its storage key is not \<^verbatim>\<open>-\<close> and its ODM
  tag is not \<^verbatim>\<open>-\<close>) has a tag that tokenizes to a definition with an unrecognized
  name, or to a relation definition with an unrecognized parameter key, provided the tags
  that the compiler reads on the fields declared before \<open>f\<close> tokenize; nothing is asked
  of the fields declared after \<open>f\<close>. Names and keys are compared after
  \<^verbatim>\<open>strings.ToLower\<close>. Whatever error \<^verbatim>\<open>Register\<close> returns, for whatever
  argument, the manager, and with it the registry, is unchanged. A field whose storage
  key is \<^verbatim>\<open>-\<close> contributes nothing to the metadata, whatever its ODM tag and
  whatever the tokenizer would say of it.
\<close>

theorem Register_rejects_unrecognized:
  assumes "\<forall>g \<in> set pre. readsODM g \<longrightarrow> (\<exists>ds. Parse (sf_odm g) = Inr ds)"
    and "readsODM f" and "Parse (sf_odm f) = Inr ds" and "\<exists>d \<in> set ds. unrecognized L d"
  shows "Register Parse L targetDocument (Some (PtrTo (Struct T (pre @ f # post)), False)) manager
           = (Some ErrInvalidAnnotation, manager) \<and>
         (fst (Register P L' c document m) \<noteq> None \<longrightarrow>
            snd (Register P L' c document m) = m) \<and>
         (storageKey g = ''-'' \<longrightarrow> compileField P L' Type meta g = Inr meta)"
proof (intro conjI impI)
  show "Register Parse L targetDocument (Some (PtrTo (Struct T (pre @ f # post)), False)) manager
           = (Some ErrInvalidAnnotation, manager)"
    using compileFields_first_unrecognized [OF assms]
    by (simp add: Register_def getTypeMetadatas_def)
  show "snd (Register P L' c document m) = m" if "fst (Register P L' c document m) \<noteq> None"
    using that by (rule Register_error_unchanged)
  show "compileField P L' Type meta g = Inr meta" if "storageKey g = ''-''"
    using that by (rule compileField_ignored)
qed

lemmas string_evals =
  sampleLower_def toLower_def isASCII_def lowerChar_def TrimSpace_def leadingSpace_def
  trailingSpace_def whiteSpace_def storageKey_def readsODM_def

theorem Register_rejects_unrecognized_witness:
  "Register sampleParse sampleLower ''pets''
     (Some (PtrTo (Struct ''Pet''
        [\<lparr> sf_name = ''ID'', sf_bson = ''_id,omitempty'', sf_odm = ''index(unique)'' \<rparr>,
         \<lparr> sf_name = ''Owner'', sf_bson = [], sf_odm = ''referenceOne(unknownParam=x)'' \<rparr>,
         \<lparr> sf_name = ''Later'', sf_bson = [], sf_odm = ''index('' \<rparr>]), False))
     (NewDocumentManager Map.empty 0)
   = (Some ErrInvalidAnnotation, NewDocumentManager Map.empty 0) \<and>
   snd (Register sampleParse sampleLower ''pets''
     (Some (PtrTo (Struct ''Pet'' [\<lparr> sf_name = ''Later'', sf_bson = [], sf_odm = ''index('' \<rparr>]),
            False))
     (NewDocumentManager Map.empty 0)) = NewDocumentManager Map.empty 0 \<and>
   compileField sampleParse sampleLower [] zeroMetadata
     \<lparr> sf_name = ''Secret'', sf_bson = '' -,omitempty'', sf_odm = ''foo()'' \<rparr> = Inr zeroMetadata"
  using Register_rejects_unrecognized [where
      pre = "[\<lparr> sf_name = ''ID'', sf_bson = ''_id,omitempty'', sf_odm = ''index(unique)'' \<rparr>]"
      and f = "\<lparr> sf_name = ''Owner'', sf_bson = [], sf_odm = ''referenceOne(unknownParam=x)'' \<rparr>"
      and post = "[\<lparr> sf_name = ''Later'', sf_bson = [], sf_odm = ''index('' \<rparr>]"
      and Parse = sampleParse and L = sampleLower and targetDocument = "''pets''"
      and T = "''Pet''" and manager = "NewDocumentManager Map.empty 0"
      and ds = "[\<lparr> Name = ''referenceOne'',
                   Parameters = [\<lparr> Key = ''unknownParam'', Value = ''x'' \<rparr>] \<rparr>]"
      and P = sampleParse and L' = sampleLower and c = "''pets''"
      and document = "Some (PtrTo (Struct ''Pet''
             [\<lparr> sf_name = ''Later'', sf_bson = [], sf_odm = ''index('' \<rparr>]), False)"
      and m = "NewDocumentManager Map.empty 0"
      and g = "\<lparr> sf_name = ''Secret'', sf_bson = '' -,omitempty'', sf_odm = ''foo()'' \<rparr>"
      and Type = "[]" and meta = zeroMetadata]
  by (simp add: sampleParse_def unrecognized_def recognizedNames_def recognizedKeys_def
        string_evals Register_def getTypeMetadatas_def compileField_def Let_def)

text \<open>
  Claim C7 as stated fails in two ways. A field that the storage tag marks as ignored is
  left by the field loop before its ODM tag is tokenized, so a tag with the unrecognized
  definition \<^verbatim>\<open>foo()\<close> is accepted and the type is registered. And a tag that does not
  tokenize on a field declared before the one with the unrecognized definition makes
  \<^verbatim>\<open>Register\<close> return the tokenizer's error instead of \<^verbatim>\<open>ErrInvalidAnnotation\<close>.
\<close>

theorem Register_ignored_field_counterexample:
  "sampleParse ''foo()'' = Inr [\<lparr> Name = ''foo'', Parameters = [] \<rparr>] \<and>
   unrecognized sampleLower \<lparr> Name = ''foo'', Parameters = [] \<rparr> \<and>
   Register sampleParse sampleLower ''things''
     (Some (PtrTo (Struct ''Thing''
        [\<lparr> sf_name = ''Secret'', sf_bson = ''-'', sf_odm = ''foo()'' \<rparr>]), False))
     (NewDocumentManager Map.empty 0)
   = (None, (NewDocumentManager Map.empty 0)\<lparr> metadatas :=
        [(''Thing'', zeroMetadata\<lparr> m_structType := ''Thing'',
                                     m_targetDocument := ''things'' \<rparr>)] \<rparr>) \<and>
   Register sampleParse sampleLower ''things''
     (Some (PtrTo (Struct ''Thing''
        [\<lparr> sf_name = ''Broken'', sf_bson = [], sf_odm = ''index('' \<rparr>,
         \<lparr> sf_name = ''Kind'', sf_bson = [], sf_odm = ''foo()'' \<rparr>]), False))
     (NewDocumentManager Map.empty 0)
   = (Some (ErrSyntax ''index(''), NewDocumentManager Map.empty 0)"
  by (simp add: sampleParse_def unrecognized_def recognizedNames_def string_evals
        Register_def getTypeMetadatas_def compileField_def NewDocumentManager_def Let_def)

section \<open>Identifier lookup\<close>

lemma map_of_assign:
  "map_of (assign m k v) = (map_of m)(k \<mapsto> v)"
  by (induction m) (auto simp: fun_eq_iff)



lemma elemField_setElemField:
  "elemField h (VPtr T (Some a)) n = Some y \<Longrightarrow>
   elemField (setElemField h (VPtr T (Some a)) n x) (VPtr T (Some a)) n = Some x"
  by (auto split: option.splits)

lemma TrimSpace_id:
  "TrimSpace ''_id'' = ''_id''"
  by (simp add: string_evals)

lemma applyDefinition_key:
  assumes "applyDefinition L fname (meta, F) d = Inr (meta', F')"
  shows "m_fields meta' = m_fields meta \<and> (f_key F \<noteq> ''_id'' \<longrightarrow> f_key F' \<noteq> ''_id'')"
  using assms
  by (auto simp: applyDefinition_def Let_def split: if_splits sum.splits)

lemma applyDefinitions_key:
  assumes "applyDefinitions L fname (meta, F) ds = Inr (meta', F')"
  shows "m_fields meta' = m_fields meta \<and> (f_key F \<noteq> ''_id'' \<longrightarrow> f_key F' \<noteq> ''_id'')"
  using assms
proof (induction ds arbitrary: meta F)
  case Nil
  then show ?case by simp
next
  case (Cons d ds)
  then obtain meta1 F1 where st: "applyDefinition L fname (meta, F) d = Inr (meta1, F1)"
    and rest: "applyDefinitions L fname (meta1, F1) ds = Inr (meta', F')"
    by (auto split: sum.splits)
  from applyDefinition_key [OF st] Cons.IH [OF rest] show ?case by simp
qed

lemma resolveKeyForField_id:
  assumes "resolveKeyForField L Type n = ''_id''"
  shows "\<exists>g \<in> set Type. storageKey g = ''_id'' \<or> toLower L (sf_name g) = ''_id''"
proof -
  from assms obtain g where g: "find (\<lambda>f. sf_name f = n) Type = Some g"
    by (auto simp: resolveKeyForField_def split: option.splits)
  then have mem: "g \<in> set Type" by (auto simp: find_Some_iff)
  from assms g have "storageKey g = ''_id'' \<or> toLower L (sf_name g) = ''_id''"
    using TrimSpace_id
    by (auto simp: resolveKeyForField_def storageKey_def split: list.splits if_splits)
  with mem show ?thesis by blast
qed

lemma compileField_key:
  assumes c: "compileField Parse L Type meta Fld = Inr meta'"
    and inv: "\<forall>f \<in> set (m_fields meta). f_key f \<noteq> ''_id''"
    and fld: "storageKey Fld \<noteq> ''_id''" "toLower L (sf_name Fld) \<noteq> ''_id''"
    and ty: "\<forall>g \<in> set Type. storageKey g \<noteq> ''_id'' \<and> toLower L (sf_name g) \<noteq> ''_id''"
  shows "\<forall>f \<in> set (m_fields meta'). f_key f \<noteq> ''_id''"
proof -
  from ty have rk: "resolveKeyForField L Type n \<noteq> ''_id''" for n
    using resolveKeyForField_id [of L Type n] by blast
  from c inv fld rk show ?thesis
    by (auto simp: compileField_def Let_def storageKey_def
             split: if_splits sum.splits prod.splits dest!: applyDefinitions_key)
qed

lemma compileFields_key:
  assumes "compileFields Parse L Type meta flds = Inr meta'"
    and "\<forall>f \<in> set (m_fields meta). f_key f \<noteq> ''_id''"
    and "\<forall>g \<in> set flds. storageKey g \<noteq> ''_id'' \<and> toLower L (sf_name g) \<noteq> ''_id''"
    and "\<forall>g \<in> set Type. storageKey g \<noteq> ''_id'' \<and> toLower L (sf_name g) \<noteq> ''_id''"
  shows "\<forall>f \<in> set (m_fields meta'). f_key f \<noteq> ''_id''"
  using assms
proof (induction flds arbitrary: meta)
  case Nil
  then show ?case by simp
next
  case (Cons g flds)
  from Cons.prems(1) obtain meta1 where st: "compileField Parse L Type meta g = Inr meta1"
    and rest: "compileFields Parse L Type meta1 flds = Inr meta'"
    by (auto split: sum.splits)
  from Cons.prems(3) have g: "storageKey g \<noteq> ''_id''" "toLower L (sf_name g) \<noteq> ''_id''"
    by simp_all
  have "\<forall>f \<in> set (m_fields meta1). f_key f \<noteq> ''_id''"
    using st Cons.prems(2) g Cons.prems(4) by (rule compileField_key)
  moreover from Cons.prems(3)
  have "\<forall>h \<in> set flds. storageKey h \<noteq> ''_id'' \<and> toLower L (sf_name h) \<noteq> ''_id''" by simp
  ultimately show ?case using Cons.IH [OF rest] Cons.prems(4) by blast
qed

lemma getTypeMetadatas_no_id_key:
  assumes "getTypeMetadatas Parse L flds = Inr meta"
    and "\<forall>g \<in> set flds. storageKey g \<noteq> ''_id'' \<and> toLower L (sf_name g) \<noteq> ''_id''"
  shows "findIDField meta = None"
proof -
  have "\<forall>f \<in> set (m_fields meta). f_key f \<noteq> ''_id''"
    using assms compileFields_key [of Parse L flds zeroMetadata flds meta]
    by (simp add: getTypeMetadatas_def zeroMetadata_def)
  then show ?thesis by (simp add: findIDField_def find_None_iff)
qed

lemma Persist_new:
  assumes "getMetadatas (metadatas manager) (Some T) = Inr meta"
    and "fst (getDocumentID (metadatas manager) (heap manager) (Some (VPtr T (Some a)))) = oid"
    and "snd (getDocumentID (metadatas manager) (heap manager) (Some (VPtr T (Some a))))
           \<noteq> Some Panic"
    and "\<not> Valid oid"
    and "elemField (heap manager) (VPtr T (Some a)) (m_idField meta) = Some (VObjectId old)"
  shows "Persist (Some (VPtr T (Some a))) manager =
           (None, manager\<lparr> heap := setElemField (heap manager) (VPtr T (Some a)) (m_idField meta)
                                     (VObjectId (NewObjectId (fresh manager))),
                            fresh := Suc (fresh manager),
                            tasks := assign (tasks manager) (Some (VPtr T (Some a))) insertTask \<rparr>)"
  using assms
  by (auto simp: Persist_def setIDForValue_def split: prod.splits)

lemmas compile_evals =
  sampleParse_def string_evals Register_def getTypeMetadatas_def compileField_def
  applyDefinition_def NewDocumentManager_def zeroMetadata_def zeroRelation_def
  hasRelation_def Let_def

lemmas lookup_evals =
  getDocumentID_def getMetadatas_def findIDField_def setIDForValue_def Valid_def

text \<open>
  Claim C9, as amended. \<^verbatim>\<open>findIDField\<close> looks for the stored key \<^verbatim>\<open>_id\<close> and
  never reads the recorded \<open>idField\<close>. Take a struct type none of whose fields has the
  storage key \<^verbatim>\<open>_id\<close> or a name that lower-cases to \<^verbatim>\<open>_id\<close>, registered with
  the metadata compiled from it, and an entity of that type whose recorded identifier
  field holds any identifier \<open>old\<close>, zero or not. Then the compiled metadata has no
  identifier field for the lookup, \<^verbatim>\<open>getDocumentID\<close> returns
  \<^verbatim>\<open>ErrIDFieldNotFound\<close>, and \<^verbatim>\<open>Persist\<close> writes a newly generated identifier
  into the entity and records a create intent, on a first call and again on a second.
\<close>

theorem Persist_without_id_key:
  assumes "getTypeMetadatas Parse L flds = Inr compiled"
    and "getMetadatas (metadatas manager) (Some T)
           = Inr (compiled\<lparr> m_structType := T, m_targetDocument := c \<rparr>)"
    and "\<forall>g \<in> set flds. storageKey g \<noteq> ''_id'' \<and> toLower L (sf_name g) \<noteq> ''_id''"
    and "elemField (heap manager) (VPtr T (Some a)) (m_idField compiled) = Some (VObjectId old)"
  shows "findIDField (compiled\<lparr> m_idField := n \<rparr>) = findIDField compiled \<and>
         findIDField compiled = None \<and>
         getDocumentID (metadatas manager) (heap manager) (Some (VPtr T (Some a)))
           = ([], Some ErrIDFieldNotFound) \<and>
         Persist (Some (VPtr T (Some a))) manager =
           (None, manager\<lparr> heap := setElemField (heap manager) (VPtr T (Some a))
                                     (m_idField compiled)
                                     (VObjectId (NewObjectId (fresh manager))),
                            fresh := Suc (fresh manager),
                            tasks := assign (tasks manager) (Some (VPtr T (Some a)))
                                       insertTask \<rparr>) \<and>
         fst (Persist (Some (VPtr T (Some a))) (snd (Persist (Some (VPtr T (Some a))) manager)))
           = None \<and>
         map_of (tasks (snd (Persist (Some (VPtr T (Some a)))
                   (snd (Persist (Some (VPtr T (Some a))) manager)))))
           (Some (VPtr T (Some a))) = Some insertTask \<and>
         elemField (heap (snd (Persist (Some (VPtr T (Some a)))
                     (snd (Persist (Some (VPtr T (Some a))) manager)))))
           (VPtr T (Some a)) (m_idField compiled)
           = Some (VObjectId (NewObjectId (Suc (fresh manager))))"
proof -
  let ?e = "Some (VPtr T (Some a))"
  let ?meta = "compiled\<lparr> m_structType := T, m_targetDocument := c \<rparr>"
  have none: "findIDField compiled = None"
    using assms(1,3) by (rule getTypeMetadatas_no_id_key)
  then have none': "findIDField ?meta = None" by (simp add: findIDField_def)
  have same: "findIDField (compiled\<lparr> m_idField := n \<rparr>) = findIDField compiled"
    by (simp add: findIDField_def)
  have gd: "getDocumentID (metadatas m) (heap m) ?e = ([], Some ErrIDFieldNotFound)"
    if "metadatas m = metadatas manager" for m
    using that assms(2) none' by (simp add: getDocumentID_def)
  have step: "Persist ?e m =
      (None, m\<lparr> heap := setElemField (heap m) (VPtr T (Some a)) (m_idField compiled)
                          (VObjectId (NewObjectId (fresh m))),
                fresh := Suc (fresh m), tasks := assign (tasks m) ?e insertTask \<rparr>)"
    if m: "metadatas m = metadatas manager"
      and el: "elemField (heap m) (VPtr T (Some a)) (m_idField compiled) = Some (VObjectId x)"
    for m x
  proof -
    have "getMetadatas (metadatas m) (Some T) = Inr ?meta" using m assms(2) by simp
    moreover have "fst (getDocumentID (metadatas m) (heap m) ?e) = []"
      and "snd (getDocumentID (metadatas m) (heap m) ?e) \<noteq> Some Panic"
      using gd [OF m] by simp_all
    moreover have "\<not> Valid []" by (simp add: Valid_def)
    moreover have "elemField (heap m) (VPtr T (Some a)) (m_idField ?meta) = Some (VObjectId x)"
      using el by simp
    ultimately show ?thesis using Persist_new [of m T ?meta a "[]" x] by simp
  qed
  have first: "Persist ?e manager =
      (None, manager\<lparr> heap := setElemField (heap manager) (VPtr T (Some a)) (m_idField compiled)
                                (VObjectId (NewObjectId (fresh manager))),
                fresh := Suc (fresh manager), tasks := assign (tasks manager) ?e insertTask \<rparr>)"
    using assms(4) by (intro step) simp_all
  let ?m1 = "snd (Persist ?e manager)"
  have m1: "metadatas ?m1 = metadatas manager" "fresh ?m1 = Suc (fresh manager)"
    by (simp_all add: first)
  have el1: "elemField (heap ?m1) (VPtr T (Some a)) (m_idField compiled)
               = Some (VObjectId (NewObjectId (fresh manager)))"
    using elemField_setElemField [OF assms(4)] by (simp add: first)
  have second: "Persist ?e ?m1 =
      (None, ?m1\<lparr> heap := setElemField (heap ?m1) (VPtr T (Some a)) (m_idField compiled)
                                (VObjectId (NewObjectId (fresh ?m1))),
                fresh := Suc (fresh ?m1), tasks := assign (tasks ?m1) ?e insertTask \<rparr>)"
    using m1(1) el1 by (rule step)
  have s1: "fst (Persist ?e ?m1) = None" by (simp add: second)
  have s2: "map_of (tasks (snd (Persist ?e ?m1))) ?e = Some insertTask"
    by (simp add: second map_of_assign)
  have s3: "elemField (heap (snd (Persist ?e ?m1))) (VPtr T (Some a)) (m_idField compiled)
              = Some (VObjectId (NewObjectId (Suc (fresh manager))))"
    using elemField_setElemField [OF el1] by (simp add: second m1(2))
  from same none gd [of manager] first s1 s2 s3 show ?thesis by simp
qed

theorem Persist_without_id_key_witness:
  "getDocumentID (metadatas (managerOf odmUser ''aaaaaaaaaaaa''))
     (heap (managerOf odmUser ''aaaaaaaaaaaa'')) theUser = ([], Some ErrIDFieldNotFound) \<and>
   fst (Persist theUser (managerOf odmUser ''aaaaaaaaaaaa'')) = None \<and>
   map_of (tasks (snd (Persist theUser (managerOf odmUser ''aaaaaaaaaaaa'')))) theUser
     = Some insertTask \<and>
   fieldOf (heap (snd (Persist theUser (managerOf odmUser ''aaaaaaaaaaaa'')))) theUser ''ID''
     = Some (VObjectId (NewObjectId 0)) \<and>
   fieldOf (heap (snd (Persist theUser
             (snd (Persist theUser (managerOf odmUser ''aaaaaaaaaaaa'')))))) theUser ''ID''
     = Some (VObjectId (NewObjectId 1))"
proof -
  let ?flds = "[\<lparr> sf_name = ''ID'', sf_bson = [], sf_odm = ''id'' \<rparr>,
                \<lparr> sf_name = ''Name'', sf_bson = [], sf_odm = [] \<rparr>]"
  let ?compiled = "\<lparr> m_targetDocument = [], m_structType = [], m_idField = ''ID'', m_idKey = [],
     m_fields = [\<lparr> f_composite = False, f_index = False, f_unique = False, f_key = ''id'',
                    f_name = ''ID'', f_omitempty = False, f_relation = zeroRelation,
                    f_ignore = False \<rparr>,
                 \<lparr> f_composite = False, f_index = False, f_unique = False, f_key = ''name'',
                    f_name = ''Name'', f_omitempty = False, f_relation = zeroRelation,
                    f_ignore = False \<rparr>] \<rparr>"
  have 1: "getTypeMetadatas sampleParse sampleLower ?flds = Inr ?compiled"
    by (simp add: compile_evals)
  have 2: "getMetadatas (metadatas (managerOf odmUser ''aaaaaaaaaaaa'')) (Some ''User'')
             = Inr (?compiled\<lparr> m_structType := ''User'', m_targetDocument := ''users'' \<rparr>)"
    by (simp add: managerOf_def odmUser_def getMetadatas_def compile_evals)
  have 3: "\<forall>g \<in> set ?flds. storageKey g \<noteq> ''_id'' \<and> toLower sampleLower (sf_name g) \<noteq> ''_id''"
    by (simp add: string_evals)
  have 4: "elemField (heap (managerOf odmUser ''aaaaaaaaaaaa'')) (VPtr ''User'' (Some 0))
             (m_idField ?compiled) = Some (VObjectId ''aaaaaaaaaaaa'')"
    by (simp add: managerOf_def odmUser_def userHeap_def compile_evals)
  have 5: "fresh (managerOf odmUser ''aaaaaaaaaaaa'') = 0"
    by (simp add: managerOf_def odmUser_def compile_evals)
  note t = Persist_without_id_key [OF 1 2 3 4]
  note lookup = t [THEN conjunct2, THEN conjunct2, THEN conjunct1]
  note first = t [THEN conjunct2, THEN conjunct2, THEN conjunct2, THEN conjunct1]
  note second = t [THEN conjunct2, THEN conjunct2, THEN conjunct2, THEN conjunct2,
                   THEN conjunct2, THEN conjunct2]
  have w1: "getDocumentID (metadatas (managerOf odmUser ''aaaaaaaaaaaa''))
     (heap (managerOf odmUser ''aaaaaaaaaaaa'')) theUser = ([], Some ErrIDFieldNotFound)"
    using lookup by (simp add: theUser_def)
  have w2: "fst (Persist theUser (managerOf odmUser ''aaaaaaaaaaaa'')) = None"
    using first by (simp add: theUser_def)
  have w3: "map_of (tasks (snd (Persist theUser (managerOf odmUser ''aaaaaaaaaaaa'')))) theUser
     = Some insertTask"
    using first by (simp add: theUser_def map_of_assign)
  have w4: "fieldOf (heap (snd (Persist theUser (managerOf odmUser ''aaaaaaaaaaaa'')))) theUser
     ''ID'' = Some (VObjectId (NewObjectId 0))"
    using first 5 elemField_setElemField [OF 4]
    by (simp add: theUser_def del: elemField.simps setElemField.simps)
  have w5: "fieldOf (heap (snd (Persist theUser
             (snd (Persist theUser (managerOf odmUser ''aaaaaaaaaaaa'')))))) theUser ''ID''
     = Some (VObjectId (NewObjectId 1))"
    using second 5 by (simp add: theUser_def del: elemField.simps setElemField.simps)
  from w1 w2 w3 w4 w5 show ?thesis by blast
qed

text \<open>
  Claim C9 as stated fails for a type that marks its identifier by the ODM annotation
  alone, with no storage tag, on a field named \<^verbatim>\<open>_id\<close>: the stored key of the field
  is its lower-cased name, the lookup finds it, and \<^verbatim>\<open>getDocumentID\<close> panics on the
  unexported field instead of returning \<^verbatim>\<open>ErrIDFieldNotFound\<close>.
\<close>

theorem getDocumentID_hidden_counterexample:
  "storageKey \<lparr> sf_name = ''_id'', sf_bson = [], sf_odm = ''id'' \<rparr> = [] \<and>
   map_of (metadatas hiddenManager) ''Hidden''
     = Some \<lparr> m_targetDocument = ''hidden'', m_structType = ''Hidden'', m_idField = ''_id'',
              m_idKey = [],
              m_fields = [\<lparr> f_composite = False, f_index = False, f_unique = False,
                             f_key = ''_id'', f_name = ''_id'', f_omitempty = False,
                             f_relation = zeroRelation, f_ignore = False \<rparr>] \<rparr> \<and>
   getDocumentID (metadatas hiddenManager) (heap hiddenManager) theHidden = ([], Some Panic) \<and>
   Persist theHidden hiddenManager = (Some Panic, hiddenManager)"
  by (simp add: hiddenManager_def hiddenID_def hiddenHeap_def theHidden_def compile_evals
        lookup_evals Persist_def)







end
